theory Spec2Isabelle
  imports Complex_Main "HOL-Library.Char_ord" "HOL-Library.List_Lexorder" "HOL-Library.Multiset"
begin

section \<open>The standalone SQLite storage of the BioCV consumer example\<close>

text \<open>
  A shallow embedding of \<^verbatim>\<open>src/standalone-sqlite.js\<close> (class
  \<^verbatim>\<open>StandaloneSQLiteStorage\<close>). The object's fields and the content of the
  database file behind \<^verbatim>\<open>this.db\<close> form one state record; every method is a
  function from the state (and its arguments) to an error or a result with the new state.
  What lies outside the source is a parameter or a stated model:
  \<^item> strings are lists of 8-bit characters, read as ASCII text;
  \<^item> the clock: \<open>now\<close> is the text the engine substitutes for
    \<^verbatim>\<open>CURRENT_TIMESTAMP\<close> during the operation;
  \<^item> \<^verbatim>\<open>new Date(text)\<close>, \<^verbatim>\<open>parseFloat(text)\<close> and the calendar
    arithmetic of \<^verbatim>\<open>Date\<close> are parameters of the functions that call them;
  \<^item> the engine keeps named tables; a statement whose interpolated table name is not a
    bare SQL identifier is rejected. Reserved words, the engine's own objects and the index
    names share that name space in the engine and are not modelled;
  \<^item> console logging has no effect on the state and is left out;
  \<^item> a failed operation yields its error only (the state it leaves is not described).
\<close>

subsection \<open>Characters and table names\<close>

definition isLowerAscii :: "char \<Rightarrow> bool" where
  "isLowerAscii c = (97 \<le> (of_char c :: nat) \<and> (of_char c :: nat) \<le> 122)"

definition isUpperAscii :: "char \<Rightarrow> bool" where
  "isUpperAscii c = (65 \<le> (of_char c :: nat) \<and> (of_char c :: nat) \<le> 90)"

definition isDigitAscii :: "char \<Rightarrow> bool" where
  "isDigitAscii c = (48 \<le> (of_char c :: nat) \<and> (of_char c :: nat) \<le> 57)"

text \<open>\<^verbatim>\<open>String.prototype.toUpperCase\<close> and \<^verbatim>\<open>toLowerCase\<close> on one ASCII character.\<close>

definition toUpperCaseChar :: "char \<Rightarrow> char" where
  "toUpperCaseChar c = (if isLowerAscii c then char_of ((of_char c :: nat) - 32) else c)"

definition toLowerCaseChar :: "char \<Rightarrow> char" where
  "toLowerCaseChar c = (if isUpperAscii c then char_of ((of_char c :: nat) + 32) else c)"

text \<open>One step of \<^verbatim>\<open>mac.replace(/:/g, '_')\<close>.\<close>

definition replaceColon :: "char \<Rightarrow> char" where
  "replaceColon c = (if c = CHR '':'' then CHR ''_'' else c)"

text \<open>\<^verbatim>\<open>sanitizeMacForTableName(mac) { return mac.replace(/:/g, '_').toUpperCase(); }\<close>\<close>

definition sanitizeMacForTableName :: "string \<Rightarrow> string" where
  "sanitizeMacForTableName mac = map toUpperCaseChar (map replaceColon mac)"

text \<open>
  The spec's "equivalent representations of the same key", as far as the transform
  identifies them: two characters stand for the same key character when they are the same
  letter up to case, or when both are one of the separators \<open>:\<close> and \<open>_\<close>.
\<close>

definition same_key_char :: "char \<Rightarrow> char \<Rightarrow> bool" where
  "same_key_char a b =
     (toLowerCaseChar a = toLowerCaseChar b \<or>
      ((a = CHR '':'' \<or> a = CHR ''_'') \<and> (b = CHR '':'' \<or> b = CHR ''_'')))"

definition same_key :: "string \<Rightarrow> string \<Rightarrow> bool" where
  "same_key k1 k2 = list_all2 same_key_char k1 k2"

text \<open>The three character maps on character codes, for the arithmetic of the proofs.\<close>

definition up_code :: "nat \<Rightarrow> nat" where
  "up_code n = (if 97 \<le> n \<and> n \<le> 122 then n - 32 else n)"

definition low_code :: "nat \<Rightarrow> nat" where
  "low_code n = (if 65 \<le> n \<and> n \<le> 90 then n + 32 else n)"

definition colon_code :: "nat \<Rightarrow> nat" where
  "colon_code n = (if n = 58 then 95 else n)"

text \<open>
  A bare SQL identifier as the engine's tokenizer reads it: a letter, an underscore or a
  byte above 127 first, then those, digits or \<open>$\<close>.
\<close>

definition isIdentStart :: "char \<Rightarrow> bool" where
  "isIdentStart c =
     (isUpperAscii c \<or> isLowerAscii c \<or> c = CHR ''_'' \<or> 128 \<le> (of_char c :: nat))"

definition isIdentChar :: "char \<Rightarrow> bool" where
  "isIdentChar c = (isIdentStart c \<or> isDigitAscii c \<or> c = CHR ''$'')"

definition sql_identifier :: "string \<Rightarrow> bool" where
  "sql_identifier name =
     (case name of [] \<Rightarrow> False | c # cs \<Rightarrow> isIdentStart c \<and> list_all isIdentChar cs)"

subsection \<open>JavaScript values\<close>

text \<open>
  The values a payload holds and the values bound to a statement. \<open>JNaN\<close> is the
  number NaN, \<open>JNum\<close> every other number; JavaScript's \<open>null\<close> is bound as SQL
  \<open>NULL\<close>.
\<close>

datatype jsval =
    JUndefined
  | JNull
  | JBool bool
  | JNum real
  | JNaN
  | JStr string
  | JObject "(string \<times> jsval) list"

type_synonym payload = "(string \<times> jsval) list"

fun truthy :: "jsval \<Rightarrow> bool" where
  "truthy JUndefined = False"
| "truthy JNull = False"
| "truthy (JBool b) = b"
| "truthy (JNum x) = (x \<noteq> 0)"
| "truthy JNaN = False"
| "truthy (JStr s) = (s \<noteq> [])"
| "truthy (JObject ps) = True"

text \<open>\<^verbatim>\<open>a || b\<close>\<close>

definition js_or :: "jsval \<Rightarrow> jsval \<Rightarrow> jsval" where
  "js_or a b = (if truthy a then a else b)"

text \<open>\<^verbatim>\<open>data.name\<close>: the property, or \<open>undefined\<close> when the object has none.\<close>

definition get_prop :: "payload \<Rightarrow> string \<Rightarrow> jsval" where
  "get_prop data name = (case map_of data name of None \<Rightarrow> JUndefined | Some v \<Rightarrow> v)"

text \<open>
  \<^verbatim>\<open>parseFloat(v)\<close>: a number is returned as it is, a string is read by the
  parameter \<open>pf\<close> (the numeric prefix of the text, or NaN), every other value prints as
  text that starts no number.
\<close>

fun parseFloat :: "(string \<Rightarrow> jsval) \<Rightarrow> jsval \<Rightarrow> jsval" where
  "parseFloat pf (JNum x) = JNum x"
| "parseFloat pf (JStr s) = pf s"
| "parseFloat pf JUndefined = JNaN"
| "parseFloat pf JNull = JNaN"
| "parseFloat pf (JBool b) = JNaN"
| "parseFloat pf JNaN = JNaN"
| "parseFloat pf (JObject ps) = JNaN"

text \<open>
  \<^verbatim>\<open>Array.prototype.sort(comparefn)\<close> for a consistent comparator: the stable
  order in which \<open>a\<close> stays before \<open>b\<close> when \<open>comparefn(a, b) \<le> 0\<close>.
\<close>

fun js_insert :: "('a \<Rightarrow> 'a \<Rightarrow> int) \<Rightarrow> 'a \<Rightarrow> 'a list \<Rightarrow> 'a list" where
  "js_insert cmp x [] = [x]"
| "js_insert cmp x (y # ys) = (if cmp x y \<le> 0 then x # y # ys else y # js_insert cmp x ys)"

definition js_sort :: "('a \<Rightarrow> 'a \<Rightarrow> int) \<Rightarrow> 'a list \<Rightarrow> 'a list" where
  "js_sort cmp xs = foldr (js_insert cmp) xs []"

text \<open>\<^verbatim>\<open>xs.slice(0, n)\<close>: a negative \<open>n\<close> counts from the end.\<close>

definition js_slice0 :: "int \<Rightarrow> 'a list \<Rightarrow> 'a list" where
  "js_slice0 n xs = (if 0 \<le> n then take (nat n) xs else take (length xs - nat (- n)) xs)"

subsection \<open>Errors\<close>

datatype sql_error = SyntaxError | NoSuchTable string | NoSuchColumn string

datatype error = DatabaseNotConnected | SqliteError sql_error

definition bindE :: "error + 'a \<Rightarrow> ('a \<Rightarrow> error + 'b) \<Rightarrow> error + 'b" where
  "bindE m f = (case m of Inl e \<Rightarrow> Inl e | Inr x \<Rightarrow> f x)"

subsection \<open>The state: configuration, object fields, database content\<close>

record config =
  database_path :: string
  max_table_size :: int
  retention_days :: int
  auto_create_tables :: bool
  enable_logging :: bool

text \<open>The constructor's argument: every option may be missing.\<close>

record config_input =
  database_path_in :: "string option"
  max_table_size_in :: "int option"
  retention_days_in :: "int option"
  auto_create_tables_in :: "bool option"
  enable_logging_in :: "bool option"

text \<open>
  A row as \<^verbatim>\<open>SELECT *\<close> returns it: one property per column. The per-device tables
  and the environment table have different columns; a column the table does not have reads
  \<open>JUndefined\<close>.
\<close>

record row =
  row_id :: nat
  data_type :: string
  mac_address :: jsval
  timestamp :: string
  rssi :: jsval
  temperature :: jsval
  battery_percentage :: jsval
  ant_mac :: jsval
  distance :: jsval
  weight :: jsval
  humidity :: jsval
  raw_data :: jsval
  created_at :: string

datatype table_schema = DeviceSchema | EnvironmentSchema

text \<open>A table: its columns, the AUTOINCREMENT counter, its rows in insertion order.\<close>

record table =
  tbl_schema :: table_schema
  tbl_seq :: nat
  tbl_rows :: "row list"

text \<open>A row of \<^verbatim>\<open>biocv_metadata\<close>; \<open>m_data_types\<close> is the JSON array of its text.\<close>

record meta_row =
  m_id :: nat
  m_table_name :: string
  m_mac_address :: string
  m_created_at :: string
  m_last_updated :: string
  m_row_count :: nat
  m_data_types :: "string list"

record storage =
  config :: config
  isConnected :: bool
  createdTables :: "string set"
  tables :: "string \<rightharpoonup> table"
  metadata :: "meta_row list"
  metadata_seq :: nat

text \<open>
  \<^verbatim>\<open>constructor(config = {})\<close>: the defaults, then \<^verbatim>\<open>...config\<close>, which
  overrides each of them with the option as given. The database content \<open>tbls\<close>,
  \<open>meta\<close>, \<open>mseq\<close> is what the file at the path holds.
\<close>

definition default_of :: "'a \<Rightarrow> 'a option \<Rightarrow> 'a" where
  "default_of d v = (case v of None \<Rightarrow> d | Some x \<Rightarrow> x)"

definition constructor ::
  "config_input \<Rightarrow> (string \<rightharpoonup> table) \<Rightarrow> meta_row list \<Rightarrow> nat \<Rightarrow> storage" where
  "constructor ci tbls meta mseq =
     \<lparr> config = \<lparr> database_path = default_of ''./data/biocv_standalone.db'' (database_path_in ci),
                  max_table_size = default_of 10000 (max_table_size_in ci),
                  retention_days = default_of 30 (retention_days_in ci),
                  auto_create_tables = default_of True (auto_create_tables_in ci),
                  enable_logging = default_of True (enable_logging_in ci) \<rparr>,
       isConnected = False,
       createdTables = {},
       tables = tbls,
       metadata = meta,
       metadata_seq = mseq \<rparr>"

text \<open>
  \<^verbatim>\<open>initialize()\<close>: nothing when already connected; otherwise \<^verbatim>\<open>connect()\<close>
  sets \<open>isConnected\<close> and \<^verbatim>\<open>CREATE TABLE IF NOT EXISTS biocv_metadata\<close> keeps the
  metadata that is there. \<^verbatim>\<open>close()\<close> clears the flag.
\<close>

definition initialize :: "storage \<Rightarrow> storage" where
  "initialize s = (if isConnected s then s else s\<lparr>isConnected := True\<rparr>)"

definition close :: "storage \<Rightarrow> storage" where
  "close s = s\<lparr>isConnected := False\<rparr>"

subsection \<open>The statements the source runs\<close>

text \<open>\<^verbatim>\<open>CREATE TABLE IF NOT EXISTS ${tableName} (...)\<close>\<close>

definition run_create_table :: "table_schema \<Rightarrow> string \<Rightarrow> storage \<Rightarrow> error + storage" where
  "run_create_table sch name s =
     (if \<not> sql_identifier name then Inl (SqliteError SyntaxError)
      else case tables s name of
             Some t \<Rightarrow> Inr s
           | None \<Rightarrow>
               Inr (s\<lparr>tables := (tables s)(name \<mapsto>
                        \<lparr>tbl_schema = sch, tbl_seq = 0, tbl_rows = []\<rparr>)\<rparr>))"

text \<open>
  \<^verbatim>\<open>CREATE INDEX IF NOT EXISTS idx_${tableName}_... ON ${tableName}(column)\<close>: the
  table must exist; an index changes no result.
\<close>

definition run_create_index :: "string \<Rightarrow> storage \<Rightarrow> error + storage" where
  "run_create_index name s =
     (if \<not> sql_identifier name then Inl (SqliteError SyntaxError)
      else case tables s name of
             None \<Rightarrow> Inl (SqliteError (NoSuchTable name))
           | Some t \<Rightarrow> Inr s)"

text \<open>
  \<^verbatim>\<open>INSERT INTO ${tableName} (columns) VALUES (...)\<close>: \<open>sch\<close> is the schema the
  listed columns belong to, \<open>r\<close> carries the listed values; the engine fills the id and
  the two \<^verbatim>\<open>DEFAULT CURRENT_TIMESTAMP\<close> columns.
\<close>

definition run_insert ::
  "table_schema \<Rightarrow> string \<Rightarrow> row \<Rightarrow> string \<Rightarrow> storage \<Rightarrow> error + storage" where
  "run_insert sch name r now s =
     (if \<not> sql_identifier name then Inl (SqliteError SyntaxError)
      else case tables s name of
             None \<Rightarrow> Inl (SqliteError (NoSuchTable name))
           | Some t \<Rightarrow>
               if tbl_schema t \<noteq> sch then Inl (SqliteError (NoSuchColumn name))
               else Inr (s\<lparr>tables := (tables s)(name \<mapsto>
                      t\<lparr>tbl_seq := Suc (tbl_seq t),
                        tbl_rows := tbl_rows t @
                          [r\<lparr>row_id := Suc (tbl_seq t), timestamp := now, created_at := now\<rparr>]\<rparr>)\<rparr>))"

text \<open>
  \<^verbatim>\<open>ORDER BY timestamp DESC\<close>: text comparison, byte by byte. The engine leaves
  the order of rows with equal timestamps open; the model keeps their insertion order.
\<close>

fun insert_desc :: "row \<Rightarrow> row list \<Rightarrow> row list" where
  "insert_desc x [] = [x]"
| "insert_desc x (y # ys) =
     (if timestamp y \<le> timestamp x then x # y # ys else y # insert_desc x ys)"

definition order_by_timestamp_desc :: "row list \<Rightarrow> row list" where
  "order_by_timestamp_desc rs = foldr insert_desc rs []"

text \<open>\<^verbatim>\<open>LIMIT ?\<close>: a negative limit is no limit.\<close>

definition sql_limit :: "int \<Rightarrow> 'a list \<Rightarrow> 'a list" where
  "sql_limit n xs = (if n < 0 then xs else take (nat n) xs)"

text \<open>\<^verbatim>\<open>SELECT * FROM ${tableName} WHERE ... ORDER BY timestamp DESC\<close>\<close>

definition run_select :: "string \<Rightarrow> (row \<Rightarrow> bool) \<Rightarrow> storage \<Rightarrow> error + row list" where
  "run_select name cond s =
     (if \<not> sql_identifier name then Inl (SqliteError SyntaxError)
      else case tables s name of
             None \<Rightarrow> Inl (SqliteError (NoSuchTable name))
           | Some t \<Rightarrow> Inr (order_by_timestamp_desc (filter cond (tbl_rows t))))"

text \<open>\<^verbatim>\<open>SELECT COUNT(*) as count FROM ${tableName}\<close>\<close>

definition run_count :: "string \<Rightarrow> storage \<Rightarrow> error + nat" where
  "run_count name s =
     (if \<not> sql_identifier name then Inl (SqliteError SyntaxError)
      else case tables s name of
             None \<Rightarrow> Inl (SqliteError (NoSuchTable name))
           | Some t \<Rightarrow> Inr (length (tbl_rows t)))"

text \<open>
  \<^verbatim>\<open>DELETE FROM ${tableName} WHERE created_at < ?\<close>: the result carries
  \<^verbatim>\<open>changes\<close>, the number of rows deleted.
\<close>

definition run_delete_older :: "string \<Rightarrow> string \<Rightarrow> storage \<Rightarrow> error + (nat \<times> storage)" where
  "run_delete_older name cutoff s =
     (if \<not> sql_identifier name then Inl (SqliteError SyntaxError)
      else case tables s name of
             None \<Rightarrow> Inl (SqliteError (NoSuchTable name))
           | Some t \<Rightarrow>
               Inr (length (filter (\<lambda>r. created_at r < cutoff) (tbl_rows t)),
                    s\<lparr>tables := (tables s)(name \<mapsto>
                        t\<lparr>tbl_rows := filter (\<lambda>r. \<not> created_at r < cutoff) (tbl_rows t)\<rparr>)\<rparr>))"

text \<open>\<^verbatim>\<open>DROP TABLE IF EXISTS ${tableName}\<close>\<close>

definition run_drop_table :: "string \<Rightarrow> storage \<Rightarrow> error + storage" where
  "run_drop_table name s =
     (if \<not> sql_identifier name then Inl (SqliteError SyntaxError)
      else Inr (s\<lparr>tables := (tables s)(name := None)\<rparr>))"

text \<open>
  \<^verbatim>\<open>INSERT OR IGNORE INTO biocv_metadata (table_name, mac_address) VALUES (?, ?)\<close>:
  \<^verbatim>\<open>table_name\<close> is UNIQUE, so a second row for the name is ignored.
\<close>

definition run_register_metadata :: "string \<Rightarrow> string \<Rightarrow> string \<Rightarrow> storage \<Rightarrow> storage" where
  "run_register_metadata name mac now s =
     (if name \<in> set (map m_table_name (metadata s)) then s
      else s\<lparr>metadata := metadata s @
                [\<lparr>m_id = Suc (metadata_seq s), m_table_name = name, m_mac_address = mac,
                  m_created_at = now, m_last_updated = now, m_row_count = 0,
                  m_data_types = []\<rparr>],
              metadata_seq := Suc (metadata_seq s)\<rparr>)"

text \<open>\<^verbatim>\<open>UPDATE biocv_metadata SET row_count = ?, data_types = ?, last_updated = CURRENT_TIMESTAMP WHERE table_name = ?\<close>\<close>

definition run_update_metadata ::
  "string \<Rightarrow> nat \<Rightarrow> string list \<Rightarrow> string \<Rightarrow> storage \<Rightarrow> storage" where
  "run_update_metadata name cnt dts now s =
     s\<lparr>metadata := map (\<lambda>m. if m_table_name m = name
                             then m\<lparr>m_row_count := cnt, m_data_types := dts, m_last_updated := now\<rparr>
                             else m) (metadata s)\<rparr>"

text \<open>\<^verbatim>\<open>DELETE FROM biocv_metadata WHERE table_name = ?\<close>\<close>

definition run_delete_metadata :: "string \<Rightarrow> storage \<Rightarrow> storage" where
  "run_delete_metadata name s =
     s\<lparr>metadata := filter (\<lambda>m. m_table_name m \<noteq> name) (metadata s)\<rparr>"

subsection \<open>Table creation and metadata\<close>

text \<open>
  \<^verbatim>\<open>createTableForMac(mac)\<close>: known names return at once; otherwise the table, its
  three indexes and the metadata row are created and the name is marked known. The
  configuration is not read.
\<close>

definition createTableForMac :: "storage \<Rightarrow> string \<Rightarrow> string \<Rightarrow> error + (string \<times> storage)" where
  "createTableForMac s mac now =
     (let tableName = sanitizeMacForTableName mac in
      if tableName \<in> createdTables s then Inr (tableName, s)
      else
        bindE (run_create_table DeviceSchema tableName s) (\<lambda>s1.
        bindE (run_create_index tableName s1) (\<lambda>s2.
        bindE (run_create_index tableName s2) (\<lambda>s3.
        bindE (run_create_index tableName s3) (\<lambda>s4.
        let s5 = run_register_metadata tableName mac now s4 in
        Inr (tableName, s5\<lparr>createdTables := insert tableName (createdTables s5)\<rparr>))))))"

text \<open>
  The first half of \<^verbatim>\<open>updateMetadata\<close>: the kinds stored in the name's metadata
  row (none when there is no row), with \<open>dataType\<close> appended when it is given, not empty
  and not yet listed.
\<close>

definition current_data_types :: "storage \<Rightarrow> string \<Rightarrow> string option \<Rightarrow> string list" where
  "current_data_types s tableName dataType =
     (let current = find (\<lambda>m. m_table_name m = tableName) (metadata s);
          dataTypes = (case current of None \<Rightarrow> [] | Some m \<Rightarrow> m_data_types m)
      in case dataType of
           None \<Rightarrow> dataTypes
         | Some d \<Rightarrow> if d \<noteq> [] \<and> d \<notin> set dataTypes then dataTypes @ [d] else dataTypes)"

text \<open>
  \<^verbatim>\<open>updateMetadata(tableName, mac, dataType = null)\<close>: the kinds as above, the row
  count read from the table, both written to the name's metadata row.
\<close>

definition updateMetadata ::
  "storage \<Rightarrow> string \<Rightarrow> string \<Rightarrow> string option \<Rightarrow> string \<Rightarrow> error + storage" where
  "updateMetadata s tableName mac dataType now =
     (let dataTypes = current_data_types s tableName dataType in
      bindE (run_count tableName s) (\<lambda>cnt.
        Inr (run_update_metadata tableName cnt dataTypes now s)))"

subsection \<open>The write path\<close>

text \<open>The columns an INSERT does not list: NULL in a device table.\<close>

definition device_row :: row where
  "device_row =
     \<lparr> row_id = 0, data_type = [], mac_address = JNull, timestamp = [],
       rssi = JNull, temperature = JNull, battery_percentage = JNull, ant_mac = JNull,
       distance = JNull, weight = JNull, humidity = JUndefined, raw_data = JNull,
       created_at = [] \<rparr>"

definition environment_row :: row where
  "environment_row =
     \<lparr> row_id = 0, data_type = [], mac_address = JUndefined, timestamp = [],
       rssi = JUndefined, temperature = JNull, battery_percentage = JUndefined,
       ant_mac = JUndefined, distance = JUndefined, weight = JUndefined, humidity = JNull,
       raw_data = JNull, created_at = [] \<rparr>"

text \<open>
  \<^verbatim>\<open>storeSensorData(mac, data)\<close>, with
  \<^verbatim>\<open>values = ['sensor', mac, data.rssi || null, data.temperature || data.T || null,
  data.weight || null, JSON.stringify(data)]\<close>. The column \<open>raw_data\<close> holds the
  payload whose JSON text the source stores.
\<close>

definition storeSensorData :: "storage \<Rightarrow> string \<Rightarrow> payload \<Rightarrow> string \<Rightarrow> error + storage" where
  "storeSensorData s mac data now =
     (if \<not> isConnected s then Inl DatabaseNotConnected
      else
        bindE (createTableForMac s mac now) (\<lambda>(tableName, s1).
        bindE (run_insert DeviceSchema tableName
                 (device_row\<lparr> data_type := ''sensor'',
                              mac_address := JStr mac,
                              rssi := js_or (get_prop data ''rssi'') JNull,
                              temperature :=
                                js_or (js_or (get_prop data ''temperature'') (get_prop data ''T'')) JNull,
                              weight := js_or (get_prop data ''weight'') JNull,
                              raw_data := JObject data \<rparr>) now s1) (\<lambda>s2.
        updateMetadata s2 tableName mac (Some ''sensor'') now)))"

text \<open>
  \<^verbatim>\<open>storeBatteryData(mac, data)\<close>, with
  \<^verbatim>\<open>values = ['battery', mac, data.percentage || data.battery_percentage || null,
  JSON.stringify(data)]\<close>.
\<close>

definition storeBatteryData :: "storage \<Rightarrow> string \<Rightarrow> payload \<Rightarrow> string \<Rightarrow> error + storage" where
  "storeBatteryData s mac data now =
     (if \<not> isConnected s then Inl DatabaseNotConnected
      else
        bindE (createTableForMac s mac now) (\<lambda>(tableName, s1).
        bindE (run_insert DeviceSchema tableName
                 (device_row\<lparr> data_type := ''battery'',
                              mac_address := JStr mac,
                              battery_percentage :=
                                js_or (js_or (get_prop data ''percentage'')
                                             (get_prop data ''battery_percentage'')) JNull,
                              raw_data := JObject data \<rparr>) now s1) (\<lambda>s2.
        updateMetadata s2 tableName mac (Some ''battery'') now)))"

text \<open>
  \<^verbatim>\<open>storeAntData(macAnt, macTag, distance)\<close>, with
  \<^verbatim>\<open>values = ['ant', macTag, macAnt, parseFloat(distance) || null,
  JSON.stringify({ macAnt, macTag, distance })]\<close>.
\<close>

definition storeAntData ::
  "(string \<Rightarrow> jsval) \<Rightarrow> storage \<Rightarrow> string \<Rightarrow> string \<Rightarrow> jsval \<Rightarrow> string \<Rightarrow> error + storage" where
  "storeAntData pf s macAnt macTag dval now =
     (if \<not> isConnected s then Inl DatabaseNotConnected
      else
        bindE (createTableForMac s macTag now) (\<lambda>(tableName, s1).
        bindE (run_insert DeviceSchema tableName
                 (device_row\<lparr> data_type := ''ant'',
                              mac_address := JStr macTag,
                              ant_mac := JStr macAnt,
                              distance := js_or (parseFloat pf dval) JNull,
                              raw_data := JObject [(''macAnt'', JStr macAnt),
                                                   (''macTag'', JStr macTag),
                                                   (''distance'', dval)] \<rparr>) now s1) (\<lambda>s2.
        updateMetadata s2 tableName macTag (Some ''ant'') now)))"

text \<open>
  \<^verbatim>\<open>storeEnvironmentData(data)\<close>: the shared table \<^verbatim>\<open>ENVIRONMENT_DATA\<close> is
  created (with one index) when its name is not yet known to this object; no metadata row
  is written and \<^verbatim>\<open>updateMetadata\<close> is not called.
\<close>

definition storeEnvironmentData :: "storage \<Rightarrow> payload \<Rightarrow> string \<Rightarrow> error + storage" where
  "storeEnvironmentData s data now =
     (if \<not> isConnected s then Inl DatabaseNotConnected
      else
        let tableName = ''ENVIRONMENT_DATA'' in
        bindE (if tableName \<notin> createdTables s
               then bindE (run_create_table EnvironmentSchema tableName s) (\<lambda>s1.
                    bindE (run_create_index tableName s1) (\<lambda>s2.
                    Inr (s2\<lparr>createdTables := insert tableName (createdTables s2)\<rparr>)))
               else Inr s) (\<lambda>s3.
        run_insert EnvironmentSchema tableName
          (environment_row\<lparr> data_type := ''environment'',
                             temperature :=
                               js_or (js_or (get_prop data ''temperature'')
                                            (get_prop data ''Temperature'')) JNull,
                             humidity :=
                               js_or (js_or (get_prop data ''humidity'')
                                            (get_prop data ''Humidity'')) JNull,
                             raw_data := JObject data \<rparr>) now s3))"

subsection \<open>The query path\<close>

text \<open>
  The options of a query; \<open>None\<close> is a missing option. \<^verbatim>\<open>if (dataType && dataType
  !== 'all')\<close>, \<^verbatim>\<open>if (startDate)\<close> and \<^verbatim>\<open>if (endDate)\<close> add a condition only
  for a non-empty text. The date bounds are bound as text and compared with the
  \<^verbatim>\<open>timestamp\<close> column as text.
\<close>

record query_options =
  dataType :: "string option"
  startDate :: "string option"
  endDate :: "string option"
  limit :: "int option"

definition where_clause :: "query_options \<Rightarrow> row \<Rightarrow> bool" where
  "where_clause opts r =
     ((case dataType opts of
         None \<Rightarrow> True
       | Some d \<Rightarrow> if d \<noteq> [] \<and> d \<noteq> ''all'' then data_type r = d else True) \<and>
      (case startDate opts of
         None \<Rightarrow> True
       | Some t \<Rightarrow> if t \<noteq> [] then t \<le> timestamp r else True) \<and>
      (case endDate opts of
         None \<Rightarrow> True
       | Some t \<Rightarrow> if t \<noteq> [] then timestamp r \<le> t else True))"

text \<open>\<^verbatim>\<open>queryData(mac, options = {})\<close>, \<^verbatim>\<open>limit = 100\<close> by default.\<close>

definition queryData :: "storage \<Rightarrow> string \<Rightarrow> query_options \<Rightarrow> error + row list" where
  "queryData s mac opts =
     (if \<not> isConnected s then Inl DatabaseNotConnected
      else
        let tableName = sanitizeMacForTableName mac in
        bindE (run_select tableName (where_clause opts) s) (\<lambda>rs.
        Inr (sql_limit (default_of 100 (limit opts)) rs)))"

text \<open>The loop of \<^verbatim>\<open>queryAllData\<close> over the selected metadata rows.\<close>

fun query_loop :: "query_options \<Rightarrow> storage \<Rightarrow> row list \<Rightarrow> string list \<Rightarrow> error + row list" where
  "query_loop opts s allResults [] = Inr allResults"
| "query_loop opts s allResults (name # names) =
     (case run_select name (where_clause opts) s of
        Inl e \<Rightarrow> Inl e
      | Inr results \<Rightarrow> query_loop opts s (allResults @ results) names)"

text \<open>
  \<^verbatim>\<open>queryAllData(options = {})\<close>, \<^verbatim>\<open>limit = 1000\<close> by default. The tables are
  the metadata rows \<^verbatim>\<open>WHERE table_name != 'ENVIRONMENT_DATA'\<close>; the merged rows are
  sorted by \<^verbatim>\<open>new Date(b.timestamp) - new Date(a.timestamp)\<close> and cut by
  \<^verbatim>\<open>slice(0, limit)\<close>. \<open>dateOf\<close> is \<^verbatim>\<open>new Date(text)\<close> in milliseconds.
\<close>

definition queryAllData ::
  "(string \<Rightarrow> int) \<Rightarrow> storage \<Rightarrow> query_options \<Rightarrow> error + row list" where
  "queryAllData dateOf s opts =
     (if \<not> isConnected s then Inl DatabaseNotConnected
      else
        let names = map m_table_name
                      (filter (\<lambda>m. m_table_name m \<noteq> ''ENVIRONMENT_DATA'') (metadata s)) in
        bindE (query_loop opts s [] names) (\<lambda>allResults.
        Inr (js_slice0 (default_of 1000 (limit opts))
               (js_sort (\<lambda>a b. dateOf (timestamp b) - dateOf (timestamp a)) allResults))))"

subsection \<open>Retention and dropping\<close>

text \<open>
  The loop of \<^verbatim>\<open>cleanupOldData\<close> over all metadata rows. The rows were selected
  without \<^verbatim>\<open>mac_address\<close>, so \<^verbatim>\<open>updateMetadata\<close> gets \<open>undefined\<close> for
  its second argument, which it does not use.
\<close>

fun cleanup_loop ::
  "string \<Rightarrow> string \<Rightarrow> storage \<Rightarrow> nat \<Rightarrow> string list \<Rightarrow> error + (nat \<times> storage)" where
  "cleanup_loop cutoff now s totalDeleted [] = Inr (totalDeleted, s)"
| "cleanup_loop cutoff now s totalDeleted (name # names) =
     (case run_delete_older name cutoff s of
        Inl e \<Rightarrow> Inl e
      | Inr (changes, s1) \<Rightarrow>
          (case updateMetadata s1 name ''undefined'' None now of
             Inl e \<Rightarrow> Inl e
           | Inr s2 \<Rightarrow> cleanup_loop cutoff now s2 (totalDeleted + changes) names))"

text \<open>
  \<^verbatim>\<open>cleanupOldData(mac = null, olderThanDays = null)\<close>, with
  \<^verbatim>\<open>days = olderThanDays || this.config.retention_days\<close>. \<open>isoDaysAgo days\<close> is
  \<^verbatim>\<open>cutoffDate.toISOString()\<close> after \<^verbatim>\<open>setDate(getDate() - days)\<close>.
  \<^verbatim>\<open>if (mac)\<close> takes the keyed branch for a non-empty text only.
\<close>

definition cleanupOldData ::
  "(int \<Rightarrow> string) \<Rightarrow> storage \<Rightarrow> string option \<Rightarrow> int option \<Rightarrow> string \<Rightarrow>
   error + (nat \<times> storage)" where
  "cleanupOldData isoDaysAgo s mac olderThanDays now =
     (if \<not> isConnected s then Inl DatabaseNotConnected
      else
        let days = (case olderThanDays of
                      None \<Rightarrow> retention_days (config s)
                    | Some d \<Rightarrow> if d \<noteq> 0 then d else retention_days (config s));
            cutoff = isoDaysAgo days
        in case mac of
             Some m \<Rightarrow>
               if m \<noteq> [] then
                 (let tableName = sanitizeMacForTableName m in
                  bindE (run_delete_older tableName cutoff s) (\<lambda>(changes, s1).
                  bindE (updateMetadata s1 tableName m None now) (\<lambda>s2.
                  Inr (changes, s2))))
               else cleanup_loop cutoff now s 0 (map m_table_name (metadata s))
           | None \<Rightarrow> cleanup_loop cutoff now s 0 (map m_table_name (metadata s)))"

text \<open>\<^verbatim>\<open>dropTable(mac)\<close>\<close>

definition dropTable :: "storage \<Rightarrow> string \<Rightarrow> error + storage" where
  "dropTable s mac =
     (if \<not> isConnected s then Inl DatabaseNotConnected
      else
        let tableName = sanitizeMacForTableName mac in
        bindE (run_drop_table tableName s) (\<lambda>s1.
        let s2 = run_delete_metadata tableName s1 in
        Inr (s2\<lparr>createdTables := createdTables s2 - {tableName}\<rparr>)))"

subsection \<open>Concrete stores\<close>

text \<open>A store constructed with no options over an empty database file, then initialised.\<close>

definition no_options :: config_input where
  "no_options =
     \<lparr> database_path_in = None, max_table_size_in = None, retention_days_in = None,
       auto_create_tables_in = None, enable_logging_in = None \<rparr>"

definition fresh_store :: storage where
  "fresh_store = initialize (constructor no_options Map.empty [] 0)"

text \<open>
  The fresh store after one sensor record for \<^verbatim>\<open>AA:BB:CC:DD:EE:FF\<close>, stored at
  noon of 10 June 2025.
\<close>

definition one_sensor_store :: storage where
  "one_sensor_store =
     projr (storeSensorData fresh_store ''AA:BB:CC:DD:EE:FF'' [(''rssi'', JNum (-60))]
              ''2025-06-10 12:00:00'')"

text \<open>The same with \<^verbatim>\<open>{ auto_create_tables: false }\<close>.\<close>

definition no_auto_create_store :: storage where
  "no_auto_create_store =
     initialize (constructor (no_options\<lparr>auto_create_tables_in := Some False\<rparr>) Map.empty [] 0)"

text \<open>\<^verbatim>\<open>options = {}\<close>: a query with no option given.\<close>

definition no_filter :: query_options where
  "no_filter = \<lparr> dataType = None, startDate = None, endDate = None, limit = None \<rparr>"

text \<open>
  What a write to a key without a table leaves behind: a device table of one row under
  the name, the name marked known, and a metadata row for it.
\<close>

definition has_new_table :: "storage \<Rightarrow> string \<Rightarrow> bool" where
  "has_new_table s name =
     ((case tables s name of
         None \<Rightarrow> False
       | Some t \<Rightarrow> tbl_schema t = DeviceSchema \<and> length (tbl_rows t) = 1) \<and>
      name \<in> createdTables s \<and>
      name \<in> set (map m_table_name (metadata s)))"

text \<open>
  The steps the three device writes share after the connection check: resolve the table,
  insert the row, refresh the metadata with the kind.
\<close>

definition write_device_row ::
  "storage \<Rightarrow> string \<Rightarrow> row \<Rightarrow> string \<Rightarrow> string \<Rightarrow> error + storage" where
  "write_device_row s mac r kind now =
     bindE (createTableForMac s mac now) (\<lambda>(tableName, s1).
     bindE (run_insert DeviceSchema tableName r now s1) (\<lambda>s2.
     updateMetadata s2 tableName mac (Some kind) now))"

text \<open>The invariant of claim C10: a name is marked known exactly when it has a metadata row.\<close>

definition known_iff_registered :: "storage \<Rightarrow> bool" where
  "known_iff_registered s = (createdTables s = set (map m_table_name (metadata s)))"

text \<open>The metadata rows of a name: key, creation time, row count, kinds seen.\<close>

definition metadata_summary ::
  "storage \<Rightarrow> string \<Rightarrow> (string \<times> string \<times> nat \<times> string list) list" where
  "metadata_summary s name =
     map (\<lambda>m. (m_mac_address m, m_created_at m, m_row_count m, m_data_types m))
       (filter (\<lambda>m. m_table_name m = name) (metadata s))"

text \<open>
  The spec's reading of the scan of \<^verbatim>\<open>queryAllData\<close>: the registered table names
  other than \<^verbatim>\<open>ENVIRONMENT_DATA\<close>, and the rows of a table that pass the filter.
\<close>

definition scanned_tables :: "storage \<Rightarrow> string list" where
  "scanned_tables s = filter (\<lambda>n. n \<noteq> ''ENVIRONMENT_DATA'') (map m_table_name (metadata s))"

definition matching_rows :: "query_options \<Rightarrow> storage \<Rightarrow> string \<Rightarrow> row list" where
  "matching_rows opts s name =
     (case tables s name of None \<Rightarrow> [] | Some t \<Rightarrow> filter (where_clause opts) (tbl_rows t))"

text \<open>
  A stand-in for \<^verbatim>\<open>new Date(text)\<close> on the engine's timestamps
  \<^verbatim>\<open>YYYY-MM-DD HH:MM:SS\<close>: the number its digits spell, which orders such
  timestamps as the instants they denote.
\<close>

definition date_number :: "string \<Rightarrow> int" where
  "date_number t =
     foldl (\<lambda>acc c. if isDigitAscii c then 10 * acc + ((of_char c :: int) - 48) else acc) 0 t"

text \<open>
  A clock read on 8 July 2025, midnight UTC: the ISO text of the instant \<open>d\<close> calendar
  days earlier, for the day counts 0 to 37 (back to 1 June); no other count is used.
\<close>

definition two_digits :: "nat \<Rightarrow> string" where
  "two_digits n = [char_of (48 + n div 10), char_of (48 + n mod 10)]"

definition iso_days_before_8_july_2025 :: "int \<Rightarrow> string" where
  "iso_days_before_8_july_2025 d =
     (if 0 \<le> d \<and> d \<le> 7 then ''2025-07-'' @ two_digits (nat (8 - d)) @ ''T00:00:00.000Z''
      else if 8 \<le> d \<and> d \<le> 37 then ''2025-06-'' @ two_digits (nat (38 - d)) @ ''T00:00:00.000Z''
      else [])"

text \<open>
  \<open>one_sensor_store\<close> after a battery record for a second device, and after an
  environment record that is older than every device record.
\<close>

definition two_device_store :: storage where
  "two_device_store =
     projr (storeBatteryData one_sensor_store ''E8:74:EC:4F:C9:09'' [(''percentage'', JNum 15)]
              ''2025-06-11 09:30:00'')"

definition sensor_and_environment_store :: storage where
  "sensor_and_environment_store =
     projr (storeEnvironmentData one_sensor_store
              [(''temperature'', JNum 21), (''humidity'', JNum 40)] ''2025-06-01 08:00:00'')"

text \<open>The rows a table holds after an operation; none when it failed or the table is missing.\<close>

definition stored_rows :: "error + storage \<Rightarrow> string \<Rightarrow> row list" where
  "stored_rows result name =
     (case result of
        Inl e \<Rightarrow> []
      | Inr s \<Rightarrow> (case tables s name of None \<Rightarrow> [] | Some t \<Rightarrow> tbl_rows t))"

section \<open>Properties\<close>

subsection \<open>Table names\<close>

lemma sanitize_code_eq_iff:
  "(up_code (colon_code n) = up_code (colon_code m)) \<longleftrightarrow>
     (low_code n = low_code m \<or> ((n = 58 \<or> n = 95) \<and> (m = 58 \<or> m = 95)))"
  unfolding up_code_def low_code_def colon_code_def
  by (cases "n = 58"; cases "m = 58"; cases "97 \<le> n \<and> n \<le> 122"; cases "97 \<le> m \<and> m \<le> 122";
      cases "65 \<le> n \<and> n \<le> 90"; cases "65 \<le> m \<and> m \<le> 90"; simp; arith)

lemma char_eq_code: "(x = y) = ((of_char x :: nat) = of_char y)"
  by simp

lemma colon_code_iff: "(x = CHR '':'') = ((of_char x :: nat) = 58)"
  by (subst char_eq_code) simp

lemma underscore_code_iff: "(x = CHR ''_'') = ((of_char x :: nat) = 95)"
  by (subst char_eq_code) simp

lemma of_char_toUpper: "(of_char (toUpperCaseChar c) :: nat) = up_code (of_char c)"
  by (auto simp: toUpperCaseChar_def isLowerAscii_def up_code_def)

lemma of_char_toLower: "(of_char (toLowerCaseChar c) :: nat) = low_code (of_char c)"
  by (auto simp: toLowerCaseChar_def isUpperAscii_def low_code_def)

lemma of_char_replaceColon: "(of_char (replaceColon c) :: nat) = colon_code (of_char c)"
  by (simp add: replaceColon_def colon_code_def colon_code_iff)

lemma sanitize_char_eq_iff:
  "toUpperCaseChar (replaceColon a) = toUpperCaseChar (replaceColon b) \<longleftrightarrow> same_key_char a b"
proof -
  have "(toUpperCaseChar (replaceColon a) = toUpperCaseChar (replaceColon b)) =
        (up_code (colon_code (of_char a)) = up_code (colon_code (of_char b)))"
    by (subst char_eq_code) (simp only: of_char_toUpper of_char_replaceColon)
  moreover have "same_key_char a b =
        (low_code (of_char a) = low_code (of_char b) \<or>
         (((of_char a :: nat) = 58 \<or> (of_char a :: nat) = 95) \<and>
          ((of_char b :: nat) = 58 \<or> (of_char b :: nat) = 95)))"
    unfolding same_key_char_def colon_code_iff underscore_code_iff
    by (subst char_eq_code) (simp only: of_char_toLower)
  ultimately show ?thesis
    by (simp only: sanitize_code_eq_iff)
qed

lemma sanitize_eq_iff:
  "sanitizeMacForTableName k1 = sanitizeMacForTableName k2 \<longleftrightarrow> same_key k1 k2"
  unfolding sanitizeMacForTableName_def same_key_def
proof (induction k1 arbitrary: k2)
  case Nil
  then show ?case by auto
next
  case (Cons a k1)
  then show ?case
    by (cases k2) (auto simp: sanitize_char_eq_iff)
qed

text \<open>
  Claim C1. A key is a device identifier up to its representation: the spec takes
  spellings that differ in letter case or in the separator for the same key, and the
  transform identifies exactly the spellings that differ in letter case or in the choice
  between \<open>:\<close> and \<open>_\<close>. Two keys that are distinct in this sense get distinct
  table names.
\<close>

theorem tableName_collisions_only_between_same_keys:
  assumes "\<not> same_key k1 k2"
  shows "sanitizeMacForTableName k1 \<noteq> sanitizeMacForTableName k2"
  using assms by (simp add: sanitize_eq_iff)

theorem tableName_collisions_witness:
  "\<not> same_key ''AA:BB:CC:DD:EE:FF'' ''AA:BB:CC:DD:EE:F0'' \<and>
   sanitizeMacForTableName ''AA:BB:CC:DD:EE:FF'' \<noteq> sanitizeMacForTableName ''AA:BB:CC:DD:EE:F0''"
proof -
  have h: "\<not> same_key ''AA:BB:CC:DD:EE:FF'' ''AA:BB:CC:DD:EE:F0''"
    by code_simp
  from tableName_collisions_only_between_same_keys[OF h] h show ?thesis by simp
qed

text \<open>
  Claim C8, as amended. The transform is a function of the key, and it gives one table
  name to representations of a key that differ in letter case or in the choice between the
  separators \<open>:\<close> and \<open>_\<close>. Other separators are kept as they are, so the claim's
  "differing non-alphanumeric separators" does not hold in general (see the
  counterexample).
\<close>

theorem tableName_same_for_same_keys:
  assumes "same_key k1 k2"
  shows "sanitizeMacForTableName k1 = sanitizeMacForTableName k2"
  using assms by (simp add: sanitize_eq_iff)

theorem tableName_same_witness:
  "same_key ''e8:74:ec:4f:c9:09'' ''E8_74_EC_4F_C9_09'' \<and>
   sanitizeMacForTableName ''e8:74:ec:4f:c9:09'' = sanitizeMacForTableName ''E8_74_EC_4F_C9_09''"
proof -
  have h: "same_key ''e8:74:ec:4f:c9:09'' ''E8_74_EC_4F_C9_09''"
    by code_simp
  from tableName_same_for_same_keys[OF h] h show ?thesis by simp
qed

text \<open>The same address written with hyphens and with colons gets two table names.\<close>

theorem tableName_separator_counterexample:
  "sanitizeMacForTableName ''E8-74-EC-4F-C9-09'' \<noteq> sanitizeMacForTableName ''E8:74:EC:4F:C9:09''"
  by code_simp

subsection \<open>Sequencing and frame lemmas\<close>

lemma bindE_Inl [simp]: "bindE (Inl e) f = Inl e"
  by (simp add: bindE_def)

lemma bindE_Inr [simp]: "bindE (Inr x) f = f x"
  by (simp add: bindE_def)

lemma fresh_store_simps:
  "isConnected fresh_store" "tables fresh_store = Map.empty" "createdTables fresh_store = {}"
  "metadata fresh_store = []"
  by (simp_all add: fresh_store_def initialize_def constructor_def)

lemma frame_update [simp]:
  "tables (run_update_metadata n c d now s) = tables s"
  "createdTables (run_update_metadata n c d now s) = createdTables s"
  "config (run_update_metadata n c d now s) = config s"
  "isConnected (run_update_metadata n c d now s) = isConnected s"
  by (simp_all add: run_update_metadata_def)

lemma names_update [simp]:
  "map m_table_name (metadata (run_update_metadata n c d now s)) = map m_table_name (metadata s)"
  by (simp add: run_update_metadata_def comp_def)

lemma frame_register [simp]:
  "tables (run_register_metadata n mac now s) = tables s"
  "createdTables (run_register_metadata n mac now s) = createdTables s"
  "config (run_register_metadata n mac now s) = config s"
  "isConnected (run_register_metadata n mac now s) = isConnected s"
  by (simp_all add: run_register_metadata_def)

lemma names_register:
  "set (map m_table_name (metadata (run_register_metadata n mac now s))) =
     insert n (set (map m_table_name (metadata s)))"
  by (auto simp: run_register_metadata_def)

lemma updateMetadata_ok:
  assumes "sql_identifier n" and "tables s n = Some t"
  shows "updateMetadata s n mac k now =
           Inr (run_update_metadata n (length (tbl_rows t)) (current_data_types s n k) now s)"
  using assms by (simp add: updateMetadata_def run_count_def Let_def)

subsection \<open>Queries\<close>

text \<open>
  Claim C5, as amended. The claim says that a query for a key without a table returns
  the empty sequence. The source runs its SELECT on the table without looking whether it
  exists, so on an initialised store the query for such a key (whose table name the engine
  reads as an identifier) fails with the engine's error for a missing table.
\<close>

theorem queryData_without_table_fails:
  assumes "isConnected s"
    and "sql_identifier (sanitizeMacForTableName mac)"
    and "tables s (sanitizeMacForTableName mac) = None"
  shows "queryData s mac opts = Inl (SqliteError (NoSuchTable (sanitizeMacForTableName mac)))"
  using assms by (simp add: queryData_def run_select_def Let_def)

theorem queryData_without_table_witness:
  "isConnected fresh_store \<and>
   sql_identifier (sanitizeMacForTableName ''E8:74:EC:4F:C9:09'') \<and>
   tables fresh_store (sanitizeMacForTableName ''E8:74:EC:4F:C9:09'') = None \<and>
   queryData fresh_store ''E8:74:EC:4F:C9:09'' no_filter =
     Inl (SqliteError (NoSuchTable (sanitizeMacForTableName ''E8:74:EC:4F:C9:09'')))"
proof -
  have h1: "isConnected fresh_store" by (simp add: fresh_store_simps)
  have h2: "sql_identifier (sanitizeMacForTableName ''E8:74:EC:4F:C9:09'')" by code_simp
  have h3: "tables fresh_store (sanitizeMacForTableName ''E8:74:EC:4F:C9:09'') = None"
    by (simp add: fresh_store_simps)
  from queryData_without_table_fails[OF h1 h2 h3] h1 h2 h3 show ?thesis by simp
qed

text \<open>On a fresh store, the query for a key never written does not return the empty sequence.\<close>

theorem queryData_without_table_counterexample:
  "isConnected fresh_store \<and>
   tables fresh_store (sanitizeMacForTableName ''AA:BB:CC:DD:EE:FF'') = None \<and>
   queryData fresh_store ''AA:BB:CC:DD:EE:FF'' no_filter \<noteq> Inr []"
  by code_simp

subsection \<open>Writes to a key without a table\<close>

lemma createTableForMac_fresh:
  assumes "sql_identifier (sanitizeMacForTableName mac)"
    and "tables s (sanitizeMacForTableName mac) = None"
    and "sanitizeMacForTableName mac \<notin> createdTables s"
  shows "createTableForMac s mac now =
           Inr (sanitizeMacForTableName mac,
                (run_register_metadata (sanitizeMacForTableName mac) mac now
                   (s\<lparr>tables := (tables s)(sanitizeMacForTableName mac \<mapsto>
                        \<lparr>tbl_schema = DeviceSchema, tbl_seq = 0, tbl_rows = []\<rparr>)\<rparr>))
                \<lparr>createdTables := insert (sanitizeMacForTableName mac) (createdTables s)\<rparr>)"
  using assms
  by (simp add: createTableForMac_def run_create_table_def run_create_index_def Let_def)

lemma register_fresh_row:
  assumes "n \<notin> set (map m_table_name (metadata s))"
  shows "filter (\<lambda>m. m_table_name m = n) (metadata (run_register_metadata n mac now s)) =
           [\<lparr>m_id = Suc (metadata_seq s), m_table_name = n, m_mac_address = mac,
             m_created_at = now, m_last_updated = now, m_row_count = 0, m_data_types = []\<rparr>]"
proof -
  have "filter (\<lambda>m. m_table_name m = n) (metadata s) = []"
    using assms by (auto simp: filter_empty_conv)
  with assms show ?thesis by (simp add: run_register_metadata_def)
qed

lemma find_filter_hd:
  "find P xs = (case filter P xs of [] \<Rightarrow> None | x # _ \<Rightarrow> Some x)"
  by (induction xs) auto

lemma filter_update_metadata:
  "filter (\<lambda>m. m_table_name m = n) (metadata (run_update_metadata n c d now s)) =
     map (\<lambda>m. m\<lparr>m_row_count := c, m_data_types := d, m_last_updated := now\<rparr>)
       (filter (\<lambda>m. m_table_name m = n) (metadata s))"
  unfolding run_update_metadata_def
  by (induction "metadata s" arbitrary: s) (auto simp: filter_map comp_def intro!: map_cong filter_cong)



lemma store_as_write:
  "storeSensorData s mac data now =
     (if \<not> isConnected s then Inl DatabaseNotConnected
      else write_device_row s mac
             (device_row\<lparr> data_type := ''sensor'',
                          mac_address := JStr mac,
                          rssi := js_or (get_prop data ''rssi'') JNull,
                          temperature :=
                            js_or (js_or (get_prop data ''temperature'') (get_prop data ''T'')) JNull,
                          weight := js_or (get_prop data ''weight'') JNull,
                          raw_data := JObject data \<rparr>) ''sensor'' now)"
  "storeBatteryData s mac data now =
     (if \<not> isConnected s then Inl DatabaseNotConnected
      else write_device_row s mac
             (device_row\<lparr> data_type := ''battery'',
                          mac_address := JStr mac,
                          battery_percentage :=
                            js_or (js_or (get_prop data ''percentage'')
                                         (get_prop data ''battery_percentage'')) JNull,
                          raw_data := JObject data \<rparr>) ''battery'' now)"
  "storeAntData pf s macAnt mac dval now =
     (if \<not> isConnected s then Inl DatabaseNotConnected
      else write_device_row s mac
             (device_row\<lparr> data_type := ''ant'',
                          mac_address := JStr mac,
                          ant_mac := JStr macAnt,
                          distance := js_or (parseFloat pf dval) JNull,
                          raw_data := JObject [(''macAnt'', JStr macAnt),
                                               (''macTag'', JStr mac),
                                               (''distance'', dval)] \<rparr>) ''ant'' now)"
  by (simp_all only: storeSensorData_def storeBatteryData_def storeAntData_def write_device_row_def)

lemma write_fresh:
  assumes id: "sql_identifier (sanitizeMacForTableName mac)"
    and none: "tables s (sanitizeMacForTableName mac) = None"
    and unknown: "sanitizeMacForTableName mac \<notin> createdTables s"
  shows "\<exists>s'. write_device_row s mac r kind now = Inr s' \<and>
           tables s' = (tables s)(sanitizeMacForTableName mac \<mapsto>
              \<lparr>tbl_schema = DeviceSchema, tbl_seq = 1,
               tbl_rows = [r\<lparr>row_id := 1, timestamp := now, created_at := now\<rparr>]\<rparr>) \<and>
           createdTables s' = insert (sanitizeMacForTableName mac) (createdTables s) \<and>
           set (map m_table_name (metadata s')) =
             insert (sanitizeMacForTableName mac) (set (map m_table_name (metadata s))) \<and>
           (sanitizeMacForTableName mac \<notin> set (map m_table_name (metadata s)) \<and> kind \<noteq> [] \<longrightarrow>
             metadata_summary s' (sanitizeMacForTableName mac) = [(mac, now, 1, [kind])])"
proof -
  let ?n = "sanitizeMacForTableName mac"
  let ?s0 = "s\<lparr>tables := (tables s)(?n \<mapsto>
                 \<lparr>tbl_schema = DeviceSchema, tbl_seq = 0, tbl_rows = []\<rparr>)\<rparr>"
  let ?s1 = "(run_register_metadata ?n mac now ?s0)\<lparr>createdTables := insert ?n (createdTables s)\<rparr>"
  let ?t = "\<lparr>tbl_schema = DeviceSchema, tbl_seq = 1,
             tbl_rows = [r\<lparr>row_id := 1, timestamp := now, created_at := now\<rparr>]\<rparr>"
  let ?s2 = "?s1\<lparr>tables := (tables ?s1)(?n \<mapsto> ?t)\<rparr>"
  let ?d = "current_data_types ?s2 ?n (Some kind)"
  let ?s3 = "run_update_metadata ?n (length (tbl_rows ?t)) ?d now ?s2"
  have c: "createTableForMac s mac now = Inr (?n, ?s1)"
    by (rule createTableForMac_fresh[OF id none unknown])
  have i: "run_insert DeviceSchema ?n r now ?s1 = Inr ?s2"
    using id by (simp add: run_insert_def)
  have t2: "tables ?s2 ?n = Some ?t" by simp
  have u: "updateMetadata ?s2 ?n mac (Some kind) now = Inr ?s3"
    by (rule updateMetadata_ok[OF id t2])
  have m2: "metadata ?s2 = metadata (run_register_metadata ?n mac now ?s0)" by simp
  have n2: "set (map m_table_name (metadata ?s2)) = insert ?n (set (map m_table_name (metadata s)))"
    unfolding m2 names_register by simp
  have r1: "write_device_row s mac r kind now = Inr ?s3"
    unfolding write_device_row_def by (simp only: c bindE_Inr prod.case i u)
  have r2: "tables ?s3 = (tables s)(?n \<mapsto> ?t)" by simp
  have r3: "createdTables ?s3 = insert ?n (createdTables s)" by simp
  have r4: "set (map m_table_name (metadata ?s3)) = insert ?n (set (map m_table_name (metadata s)))"
    using n2 by (simp only: names_update)
  have r5: "?n \<notin> set (map m_table_name (metadata s)) \<and> kind \<noteq> [] \<longrightarrow>
       metadata_summary ?s3 ?n = [(mac, now, 1, [kind])]"
  proof
    assume a: "?n \<notin> set (map m_table_name (metadata s)) \<and> kind \<noteq> []"
    then have a0: "?n \<notin> set (map m_table_name (metadata ?s0))" by simp
    have f: "filter (\<lambda>m. m_table_name m = ?n) (metadata ?s2) =
           [\<lparr>m_id = Suc (metadata_seq s), m_table_name = ?n, m_mac_address = mac,
             m_created_at = now, m_last_updated = now, m_row_count = 0, m_data_types = []\<rparr>]"
      unfolding m2 using register_fresh_row[OF a0, of mac now] by simp
    have d: "?d = [kind]"
      using a by (simp only: current_data_types_def find_filter_hd f) simp
    show "metadata_summary ?s3 ?n = [(mac, now, 1, [kind])]"
      unfolding metadata_summary_def filter_update_metadata f d by simp
  qed
  show ?thesis
    by (rule exI[where x = ?s3]) (intro conjI r1 r2 r3 r4 r5)
qed

lemma write_fresh_has_new_table:
  assumes id: "sql_identifier (sanitizeMacForTableName mac)"
    and none: "tables s (sanitizeMacForTableName mac) = None"
    and unknown: "sanitizeMacForTableName mac \<notin> createdTables s"
  shows "\<exists>s'. write_device_row s mac r kind now = Inr s' \<and>
             has_new_table s' (sanitizeMacForTableName mac) \<and>
             (sanitizeMacForTableName mac \<notin> set (map m_table_name (metadata s)) \<and> kind \<noteq> [] \<longrightarrow>
               metadata_summary s' (sanitizeMacForTableName mac) = [(mac, now, 1, [kind])])"
proof -
  from write_fresh[OF id none unknown, of r kind now]
  obtain s' where
    a: "write_device_row s mac r kind now = Inr s'"
    and b: "tables s' = (tables s)(sanitizeMacForTableName mac \<mapsto>
        \<lparr>tbl_schema = DeviceSchema, tbl_seq = 1,
         tbl_rows = [r\<lparr>row_id := 1, timestamp := now, created_at := now\<rparr>]\<rparr>)"
    and c: "createdTables s' = insert (sanitizeMacForTableName mac) (createdTables s)"
    and d: "set (map m_table_name (metadata s')) =
       insert (sanitizeMacForTableName mac) (set (map m_table_name (metadata s)))"
    and e: "sanitizeMacForTableName mac \<notin> set (map m_table_name (metadata s)) \<and> kind \<noteq> [] \<longrightarrow>
             metadata_summary s' (sanitizeMacForTableName mac) = [(mac, now, 1, [kind])]"
    by (elim exE conjE)
  have "has_new_table s' (sanitizeMacForTableName mac)"
    unfolding has_new_table_def b c d by simp
  with a e show ?thesis by (intro exI[where x = s'] conjI)
qed

text \<open>
  Claim C6, as amended. The claim says that with \<open>autoCreateTables = false\<close> a write
  for a key without a table fails with a TableNotFound error and creates nothing. No
  method reads the option: on an initialised store with the option off, each of the three
  device writes for a key that has no table and is not marked known (and whose table name
  the engine reads as an identifier) succeeds, creates the table with the one new row,
  marks the name known and registers it in the metadata.
\<close>

theorem writes_create_table_regardless_of_auto_create:
  assumes "isConnected s"
    and "\<not> auto_create_tables (config s)"
    and "sql_identifier (sanitizeMacForTableName mac)"
    and "tables s (sanitizeMacForTableName mac) = None"
    and "sanitizeMacForTableName mac \<notin> createdTables s"
  shows "(\<exists>s'. storeSensorData s mac data now = Inr s' \<and>
               has_new_table s' (sanitizeMacForTableName mac)) \<and>
         (\<exists>s'. storeBatteryData s mac data now = Inr s' \<and>
               has_new_table s' (sanitizeMacForTableName mac)) \<and>
         (\<exists>s'. storeAntData pf s macAnt mac dval now = Inr s' \<and>
               has_new_table s' (sanitizeMacForTableName mac))"
proof -
  have w: "\<exists>s'. write_device_row s mac r kind now = Inr s' \<and>
             has_new_table s' (sanitizeMacForTableName mac)" for r kind
    using write_fresh_has_new_table[OF assms(3,4,5), of r kind now] by (elim exE conjE) (intro exI conjI)
  show ?thesis
    unfolding store_as_write using assms(1)
    by (simp only: not_True_eq_False if_False simp_thms) (intro conjI w)
qed

theorem writes_create_table_witness:
  "isConnected no_auto_create_store \<and>
   \<not> auto_create_tables (config no_auto_create_store) \<and>
   sql_identifier (sanitizeMacForTableName ''E8:74:EC:4F:C9:09'') \<and>
   tables no_auto_create_store (sanitizeMacForTableName ''E8:74:EC:4F:C9:09'') = None \<and>
   sanitizeMacForTableName ''E8:74:EC:4F:C9:09'' \<notin> createdTables no_auto_create_store \<and>
   (\<exists>s'. storeSensorData no_auto_create_store ''E8:74:EC:4F:C9:09'' [(''rssi'', JNum (-75))]
            ''2025-06-01 10:00:00'' = Inr s' \<and>
         has_new_table s' (sanitizeMacForTableName ''E8:74:EC:4F:C9:09'')) \<and>
   (\<exists>s'. storeBatteryData no_auto_create_store ''E8:74:EC:4F:C9:09'' [(''rssi'', JNum (-75))]
            ''2025-06-01 10:00:00'' = Inr s' \<and>
         has_new_table s' (sanitizeMacForTableName ''E8:74:EC:4F:C9:09'')) \<and>
   (\<exists>s'. storeAntData (\<lambda>t. JNaN) no_auto_create_store ''A0:00:00:00:00:01'' ''E8:74:EC:4F:C9:09''
            (JNum 3) ''2025-06-01 10:00:00'' = Inr s' \<and>
         has_new_table s' (sanitizeMacForTableName ''E8:74:EC:4F:C9:09''))"
proof -
  have h1: "isConnected no_auto_create_store"
    by (simp add: no_auto_create_store_def initialize_def constructor_def)
  have h2: "\<not> auto_create_tables (config no_auto_create_store)"
    by (simp add: no_auto_create_store_def initialize_def constructor_def no_options_def default_of_def)
  have h3: "sql_identifier (sanitizeMacForTableName ''E8:74:EC:4F:C9:09'')" by code_simp
  have h4: "tables no_auto_create_store (sanitizeMacForTableName ''E8:74:EC:4F:C9:09'') = None"
    by (simp add: no_auto_create_store_def initialize_def constructor_def)
  have h5: "sanitizeMacForTableName ''E8:74:EC:4F:C9:09'' \<notin> createdTables no_auto_create_store"
    by (simp add: no_auto_create_store_def initialize_def constructor_def)
  from writes_create_table_regardless_of_auto_create[OF h1 h2 h3 h4 h5] h1 h2 h3 h4 h5
  show ?thesis by simp
qed

text \<open>With the option off, the write for a new key returns no error and the table is there.\<close>

theorem auto_create_false_counterexample:
  "\<not> auto_create_tables (config no_auto_create_store) \<and>
   tables no_auto_create_store ''AA_BB_CC_DD_EE_FF'' = None \<and>
   \<not> isl (storeSensorData no_auto_create_store ''AA:BB:CC:DD:EE:FF'' [(''rssi'', JNum (-60))]
            ''2025-06-01 10:00:00'') \<and>
   tables (projr (storeSensorData no_auto_create_store ''AA:BB:CC:DD:EE:FF'' [(''rssi'', JNum (-60))]
            ''2025-06-01 10:00:00'')) ''AA_BB_CC_DD_EE_FF'' \<noteq> None"
  by code_simp



lemma dropTable_ok:
  assumes "isConnected s" and "sql_identifier (sanitizeMacForTableName mac)"
  shows "dropTable s mac =
           Inr ((run_delete_metadata (sanitizeMacForTableName mac)
                  (s\<lparr>tables := (tables s)(sanitizeMacForTableName mac := None)\<rparr>))
                \<lparr>createdTables := createdTables s - {sanitizeMacForTableName mac}\<rparr>)"
  using assms by (simp add: dropTable_def run_drop_table_def run_delete_metadata_def Let_def)

text \<open>
  Where the engine reads the table name of the key as an identifier: on an initialised
  store \<^verbatim>\<open>dropTable(k)\<close> succeeds and removes the table, the metadata row and the
  entry of the known-tables set; it preserves the invariant that a name is marked known
  exactly when it has a metadata row; and a following sensor, battery or ant write for
  \<open>k\<close> succeeds and leaves a new table of one row, the name marked known and one
  fresh metadata row (created at the time of the write, row count 1, the one kind).
\<close>

theorem dropTable_removes_all_then_write_recreates:
  assumes "isConnected s" and "sql_identifier (sanitizeMacForTableName mac)"
  shows "\<exists>s1. dropTable s mac = Inr s1 \<and>
           tables s1 (sanitizeMacForTableName mac) = None \<and>
           sanitizeMacForTableName mac \<notin> set (map m_table_name (metadata s1)) \<and>
           sanitizeMacForTableName mac \<notin> createdTables s1 \<and>
           (known_iff_registered s \<longrightarrow> known_iff_registered s1) \<and>
           (\<exists>s2. storeSensorData s1 mac data now = Inr s2 \<and>
                 has_new_table s2 (sanitizeMacForTableName mac) \<and>
                 metadata_summary s2 (sanitizeMacForTableName mac) = [(mac, now, 1, [''sensor''])]) \<and>
           (\<exists>s2. storeBatteryData s1 mac data now = Inr s2 \<and>
                 has_new_table s2 (sanitizeMacForTableName mac) \<and>
                 metadata_summary s2 (sanitizeMacForTableName mac) = [(mac, now, 1, [''battery''])]) \<and>
           (\<exists>s2. storeAntData pf s1 macAnt mac dval now = Inr s2 \<and>
                 has_new_table s2 (sanitizeMacForTableName mac) \<and>
                 metadata_summary s2 (sanitizeMacForTableName mac) = [(mac, now, 1, [''ant''])])"
proof -
  let ?n = "sanitizeMacForTableName mac"
  let ?s1 = "(run_delete_metadata ?n (s\<lparr>tables := (tables s)(?n := None)\<rparr>))
                \<lparr>createdTables := createdTables s - {?n}\<rparr>"
  have d: "dropTable s mac = Inr ?s1" by (rule dropTable_ok[OF assms])
  have t1: "tables ?s1 ?n = None" by (simp add: run_delete_metadata_def)
  have m1: "map m_table_name (metadata ?s1) = filter (\<lambda>x. x \<noteq> ?n) (map m_table_name (metadata s))"
    by (simp add: run_delete_metadata_def filter_map comp_def)
  have n1: "?n \<notin> set (map m_table_name (metadata ?s1))" unfolding m1 by simp
  have k1: "?n \<notin> createdTables ?s1" by (simp add: run_delete_metadata_def)
  have c1: "isConnected ?s1" using assms(1) by (simp add: run_delete_metadata_def)
  have inv: "known_iff_registered s \<longrightarrow> known_iff_registered ?s1"
    unfolding known_iff_registered_def m1 by (auto simp: run_delete_metadata_def)
  have w: "\<exists>s2. write_device_row ?s1 mac r kind now = Inr s2 \<and>
             has_new_table s2 ?n \<and>
             metadata_summary s2 ?n = [(mac, now, 1, [kind])]" if "kind \<noteq> []" for r kind
    using write_fresh_has_new_table[OF assms(2) t1 k1, of r kind now] n1 that
    by (elim exE conjE impE) (intro conjI, assumption+, intro exI conjI)
  show ?thesis
    unfolding store_as_write
    apply (rule exI[where x = ?s1])
    apply (intro conjI d t1 n1 k1 inv)
    using c1 by (simp_all only: not_True_eq_False if_False simp_thms) (rule w, simp)+
qed

theorem dropTable_then_write_witness:
  "isConnected one_sensor_store \<and>
   sql_identifier (sanitizeMacForTableName ''AA:BB:CC:DD:EE:FF'') \<and>
   known_iff_registered one_sensor_store \<and>
   (\<exists>s1. dropTable one_sensor_store ''AA:BB:CC:DD:EE:FF'' = Inr s1 \<and>
         tables s1 (sanitizeMacForTableName ''AA:BB:CC:DD:EE:FF'') = None \<and>
         known_iff_registered s1 \<and>
         (\<exists>s2. storeBatteryData s1 ''AA:BB:CC:DD:EE:FF'' [(''percentage'', JNum 15)]
                  ''2025-06-11 09:30:00'' = Inr s2 \<and>
               has_new_table s2 (sanitizeMacForTableName ''AA:BB:CC:DD:EE:FF'') \<and>
               metadata_summary s2 (sanitizeMacForTableName ''AA:BB:CC:DD:EE:FF'') =
                 [(''AA:BB:CC:DD:EE:FF'', ''2025-06-11 09:30:00'', 1, [''battery''])]))"
proof -
  have h1: "isConnected one_sensor_store" by code_simp
  have h2: "sql_identifier (sanitizeMacForTableName ''AA:BB:CC:DD:EE:FF'')" by code_simp
  have h3: "known_iff_registered one_sensor_store" by code_simp
  from dropTable_removes_all_then_write_recreates[OF h1 h2,
      of "[(''percentage'', JNum 15)]" "''2025-06-11 09:30:00''" "\<lambda>t. JNaN" "''A0:00:00:00:00:01''" "JNum 3"]
  have "\<exists>s1. dropTable one_sensor_store ''AA:BB:CC:DD:EE:FF'' = Inr s1 \<and>
         tables s1 (sanitizeMacForTableName ''AA:BB:CC:DD:EE:FF'') = None \<and>
         known_iff_registered s1 \<and>
         (\<exists>s2. storeBatteryData s1 ''AA:BB:CC:DD:EE:FF'' [(''percentage'', JNum 15)]
                  ''2025-06-11 09:30:00'' = Inr s2 \<and>
               has_new_table s2 (sanitizeMacForTableName ''AA:BB:CC:DD:EE:FF'') \<and>
               metadata_summary s2 (sanitizeMacForTableName ''AA:BB:CC:DD:EE:FF'') =
                 [(''AA:BB:CC:DD:EE:FF'', ''2025-06-11 09:30:00'', 1, [''battery''])])"
    using h3 by blast
  with h1 h2 h3 show ?thesis by (intro conjI)
qed

text \<open>
  Claim C10, evaluated at a failing input. The claim is made for every key. The device
  address \<^verbatim>\<open>00:11:22:33:44:55\<close> gets the table name
  \<^verbatim>\<open>00_11_22_33_44_55\<close>, which starts with a digit and is no identifier, and the
  source puts it into its statements as it is. On an initialised store that satisfies the
  invariant, \<^verbatim>\<open>dropTable\<close> for this key fails with the engine's syntax error at
  \<^verbatim>\<open>DROP TABLE IF EXISTS\<close>, and each of the three writes for the key fails the same
  way at \<^verbatim>\<open>CREATE TABLE IF NOT EXISTS\<close>: nothing is removed and nothing is
  recreated.
\<close>

theorem dropTable_digit_leading_key_fails:
  "isConnected one_sensor_store \<and>
   known_iff_registered one_sensor_store \<and>
   sanitizeMacForTableName ''00:11:22:33:44:55'' = ''00_11_22_33_44_55'' \<and>
   \<not> sql_identifier ''00_11_22_33_44_55'' \<and>
   map_sum id createdTables (dropTable one_sensor_store ''00:11:22:33:44:55'') =
     Inl (SqliteError SyntaxError) \<and>
   map_sum id createdTables
     (storeSensorData one_sensor_store ''00:11:22:33:44:55'' [(''rssi'', JNum (-60))]
        ''2025-06-11 09:30:00'') = Inl (SqliteError SyntaxError) \<and>
   map_sum id createdTables
     (storeBatteryData one_sensor_store ''00:11:22:33:44:55'' [(''percentage'', JNum 15)]
        ''2025-06-11 09:30:00'') = Inl (SqliteError SyntaxError) \<and>
   map_sum id createdTables
     (storeAntData (\<lambda>t. JNaN) one_sensor_store ''A0:00:00:00:00:01'' ''00:11:22:33:44:55'' (JNum 3)
        ''2025-06-11 09:30:00'') = Inl (SqliteError SyntaxError)"
  by code_simp

subsection \<open>The query over all tables\<close>

lemma mset_js_insert: "mset (js_insert cmp x xs) = add_mset x (mset xs)"
  by (induction xs) auto

lemma mset_js_sort: "mset (js_sort cmp xs) = mset xs"
  unfolding js_sort_def by (induction xs) (auto simp: mset_js_insert)

lemma set_js_insert: "set (js_insert cmp x xs) = insert x (set xs)"
  by (induction xs) auto

lemma sorted_js_insert:
  assumes "sorted_wrt (\<lambda>a b. f b \<le> f a) xs"
  shows "sorted_wrt (\<lambda>a b. (f b :: int) \<le> f a) (js_insert (\<lambda>a b. f b - f a) x xs)"
  using assms
proof (induction xs)
  case Nil
  then show ?case by simp
next
  case (Cons y ys)
  show ?case
  proof (cases "f y - f x \<le> 0")
    case True
    with Cons.prems show ?thesis by (auto intro: order_trans)
  next
    case False
    with Cons show ?thesis by (auto simp: set_js_insert)
  qed
qed

lemma sorted_js_sort:
  "sorted_wrt (\<lambda>a b. (f b :: int) \<le> f a) (js_sort (\<lambda>a b. f b - f a) xs)"
  unfolding js_sort_def by (induction xs) (auto intro: sorted_js_insert)

lemma sorted_js_slice0:
  "sorted_wrt P xs \<Longrightarrow> sorted_wrt P (js_slice0 n xs)"
  by (simp add: js_slice0_def sorted_wrt_take)

lemma length_js_slice0: "0 \<le> n \<Longrightarrow> int (length (js_slice0 n xs)) \<le> n"
  by (simp add: js_slice0_def)

lemma mset_js_slice0: "mset (js_slice0 n xs) \<subseteq># mset xs"
  by (metis js_slice0_def append_take_drop_id mset_append mset_subset_eq_add_left)

lemma js_slice0_all: "int (length xs) \<le> n \<Longrightarrow> js_slice0 n xs = xs"
  by (simp add: js_slice0_def)

lemma mset_insert_desc: "mset (insert_desc x xs) = add_mset x (mset xs)"
  by (induction xs) auto

lemma mset_order_by: "mset (order_by_timestamp_desc xs) = mset xs"
  unfolding order_by_timestamp_desc_def by (induction xs) (auto simp: mset_insert_desc)

lemma run_select_mset:
  "run_select name (where_clause opts) s = Inr rs \<Longrightarrow> mset rs = mset (matching_rows opts s name)"
  by (auto simp: run_select_def matching_rows_def mset_order_by split: if_splits option.splits)

lemma query_loop_mset:
  "query_loop opts s acc names = Inr rs \<Longrightarrow>
     mset rs = mset acc + mset (concat (map (matching_rows opts s) names))"
proof (induction names arbitrary: acc)
  case Nil
  then show ?case by simp
next
  case (Cons n ns)
  from Cons.prems obtain results where
    r: "run_select n (where_clause opts) s = Inr results"
    and l: "query_loop opts s (acc @ results) ns = Inr rs"
    by (auto split: sum.splits)
  from Cons.IH[OF l] run_select_mset[OF r] show ?case by simp
qed

lemma scanned_tables_alt:
  "map m_table_name (filter (\<lambda>m. m_table_name m \<noteq> ''ENVIRONMENT_DATA'') (metadata s)) =
     scanned_tables s"
  by (simp add: scanned_tables_def filter_map comp_def)

lemma queryAllData_Inr:
  assumes "queryAllData dateOf s opts = Inr rs"
  obtains allResults where
    "query_loop opts s [] (scanned_tables s) = Inr allResults"
    "rs = js_slice0 (default_of 1000 (limit opts))
            (js_sort (\<lambda>a b. dateOf (timestamp b) - dateOf (timestamp a)) allResults)"
  using assms
  by (auto simp: queryAllData_def Let_def scanned_tables_alt bindE_def split: if_splits sum.splits)


lemma query_loop_tables_exist:
  "query_loop opts s acc names = Inr rs \<Longrightarrow> list_all (\<lambda>n. tables s n \<noteq> None) names"
proof (induction names arbitrary: acc)
  case Nil
  then show ?case by simp
next
  case (Cons n ns)
  from Cons.prems obtain results where
    r: "run_select n (where_clause opts) s = Inr results"
    and l: "query_loop opts s (acc @ results) ns = Inr rs"
    by (auto split: sum.splits)
  from r have "tables s n \<noteq> None"
    by (auto simp: run_select_def split: if_splits option.splits)
  with Cons.IH[OF l] show ?case by simp
qed

lemma Inr_projr: "\<not> isl x \<Longrightarrow> x = Inr (projr x)"
  by (cases x) auto

text \<open>
  Claim C7. Whatever the state and the filter options, a result of \<^verbatim>\<open>queryAllData\<close>
  is sorted by the date of its timestamps, most recent first, and, for a limit that is not
  negative (1000 when none is given), it has at most as many rows as the limit.
\<close>

theorem queryAllData_sorted_and_limited:
  assumes "queryAllData dateOf s opts = Inr rs"
  shows "sorted_wrt (\<lambda>a b. dateOf (timestamp b) \<le> dateOf (timestamp a)) rs \<and>
         (0 \<le> default_of 1000 (limit opts) \<longrightarrow> int (length rs) \<le> default_of 1000 (limit opts))"
proof -
  from assms obtain allResults where
    rs: "rs = js_slice0 (default_of 1000 (limit opts))
            (js_sort (\<lambda>a b. dateOf (timestamp b) - dateOf (timestamp a)) allResults)"
    by (rule queryAllData_Inr)
  have "sorted_wrt (\<lambda>a b. dateOf (timestamp b) \<le> dateOf (timestamp a))
          (js_sort (\<lambda>a b. dateOf (timestamp b) - dateOf (timestamp a)) allResults)"
    by (rule sorted_js_sort[where f = "\<lambda>r. dateOf (timestamp r)"])
  then have "sorted_wrt (\<lambda>a b. dateOf (timestamp b) \<le> dateOf (timestamp a)) rs"
    unfolding rs by (rule sorted_js_slice0)
  moreover have "0 \<le> default_of 1000 (limit opts) \<longrightarrow>
      int (length rs) \<le> default_of 1000 (limit opts)"
    unfolding rs by (simp add: length_js_slice0)
  ultimately show ?thesis by simp
qed

theorem queryAllData_sorted_witness:
  "\<not> isl (queryAllData date_number two_device_store (no_filter\<lparr>limit := Some 1\<rparr>)) \<and>
   0 \<le> default_of 1000 (limit (no_filter\<lparr>limit := Some 1\<rparr>)) \<and>
   sorted_wrt (\<lambda>a b. date_number (timestamp b) \<le> date_number (timestamp a))
     (projr (queryAllData date_number two_device_store (no_filter\<lparr>limit := Some 1\<rparr>))) \<and>
   int (length (projr (queryAllData date_number two_device_store (no_filter\<lparr>limit := Some 1\<rparr>))))
     \<le> default_of 1000 (limit (no_filter\<lparr>limit := Some 1\<rparr>))"
proof -
  have h1: "\<not> isl (queryAllData date_number two_device_store (no_filter\<lparr>limit := Some 1\<rparr>))"
    by code_simp
  have h2: "0 \<le> default_of 1000 (limit (no_filter\<lparr>limit := Some 1\<rparr>))"
    by (simp add: no_filter_def default_of_def)
  from queryAllData_sorted_and_limited[OF Inr_projr[OF h1]] h1 h2 show ?thesis by simp
qed

text \<open>
  Claim C4, as amended. The claim says that the scan excludes no table and includes the
  shared environment table. The source selects the metadata rows
  \<^verbatim>\<open>WHERE table_name != 'ENVIRONMENT_DATA'\<close>: a successful \<^verbatim>\<open>queryAllData\<close>
  has read every registered table other than \<^verbatim>\<open>ENVIRONMENT_DATA\<close> (each of them
  exists), its rows are rows of those tables that pass the one filter, and when the limit
  does not cut the merged rows it returns exactly those rows.
\<close>

theorem queryAllData_scans_registered_device_tables:
  assumes "queryAllData dateOf s opts = Inr rs"
  shows "''ENVIRONMENT_DATA'' \<notin> set (scanned_tables s) \<and>
         list_all (\<lambda>n. tables s n \<noteq> None) (scanned_tables s) \<and>
         mset rs \<subseteq># mset (concat (map (matching_rows opts s) (scanned_tables s))) \<and>
         (int (length (concat (map (matching_rows opts s) (scanned_tables s))))
            \<le> default_of 1000 (limit opts) \<longrightarrow>
          mset rs = mset (concat (map (matching_rows opts s) (scanned_tables s))))"
proof -
  let ?cmp = "\<lambda>a b. dateOf (timestamp b) - dateOf (timestamp a)"
  let ?scan = "concat (map (matching_rows opts s) (scanned_tables s))"
  from assms obtain allResults where
    l: "query_loop opts s [] (scanned_tables s) = Inr allResults"
    and rs: "rs = js_slice0 (default_of 1000 (limit opts)) (js_sort ?cmp allResults)"
    by (rule queryAllData_Inr)
  have m: "mset (js_sort ?cmp allResults) = mset ?scan"
    using query_loop_mset[OF l] by (simp add: mset_js_sort)
  have a: "''ENVIRONMENT_DATA'' \<notin> set (scanned_tables s)"
    by (simp add: scanned_tables_def)
  have b: "list_all (\<lambda>n. tables s n \<noteq> None) (scanned_tables s)"
    by (rule query_loop_tables_exist[OF l])
  have c: "mset rs \<subseteq># mset ?scan"
    unfolding rs using mset_js_slice0[of "default_of 1000 (limit opts)" "js_sort ?cmp allResults"]
    by (simp only: m)
  have d: "int (length ?scan) \<le> default_of 1000 (limit opts) \<longrightarrow> mset rs = mset ?scan"
  proof
    assume "int (length ?scan) \<le> default_of 1000 (limit opts)"
    moreover have "length (js_sort ?cmp allResults) = length ?scan"
      using m by (metis size_mset)
    ultimately have "js_slice0 (default_of 1000 (limit opts)) (js_sort ?cmp allResults) =
        js_sort ?cmp allResults"
      by (simp add: js_slice0_all)
    then show "mset rs = mset ?scan" unfolding rs by (simp only: m)
  qed
  from a b c d show ?thesis by (intro conjI)
qed

theorem queryAllData_scan_witness:
  "\<not> isl (queryAllData date_number sensor_and_environment_store no_filter) \<and>
   int (length (concat (map (matching_rows no_filter sensor_and_environment_store)
                  (scanned_tables sensor_and_environment_store))))
     \<le> default_of 1000 (limit no_filter) \<and>
   mset (projr (queryAllData date_number sensor_and_environment_store no_filter)) =
     mset (concat (map (matching_rows no_filter sensor_and_environment_store)
             (scanned_tables sensor_and_environment_store)))"
proof -
  have h1: "\<not> isl (queryAllData date_number sensor_and_environment_store no_filter)"
    by code_simp
  have h2: "int (length (concat (map (matching_rows no_filter sensor_and_environment_store)
                  (scanned_tables sensor_and_environment_store))))
     \<le> default_of 1000 (limit no_filter)"
    by code_simp
  from queryAllData_scans_registered_device_tables[OF Inr_projr[OF h1]] h1 h2
  show ?thesis by simp
qed

text \<open>
  A store whose environment table holds a row that passes the empty filter; the query over
  all tables succeeds and returns the sensor row only.
\<close>

theorem queryAllData_environment_counterexample:
  "map_option (\<lambda>t. map (where_clause no_filter) (tbl_rows t))
     (tables sensor_and_environment_store ''ENVIRONMENT_DATA'') = Some [True] \<and>
   \<not> isl (queryAllData date_number sensor_and_environment_store no_filter) \<and>
   map data_type (projr (queryAllData date_number sensor_and_environment_store no_filter)) =
     [''sensor'']"
  by code_simp

subsection \<open>Cleanup without a key\<close>

lemma storeEnvironmentData_Inr:
  assumes "storeEnvironmentData s data now = Inr s1"
  shows "metadata s1 = metadata s \<and>
         (\<exists>t. tables s1 ''ENVIRONMENT_DATA'' = Some t \<and> tbl_rows t \<noteq> [])"
  using assms
  by (auto simp: storeEnvironmentData_def Let_def bindE_def run_create_table_def
      run_create_index_def run_insert_def split: if_splits sum.splits option.splits)

lemma run_delete_older_frame:
  assumes "run_delete_older name cutoff s = Inr (changes, s1)"
  shows "metadata s1 = metadata s \<and> (\<forall>other. other \<noteq> name \<longrightarrow> tables s1 other = tables s other)"
  using assms
  by (auto simp: run_delete_older_def split: if_splits option.splits)

lemma updateMetadata_frame:
  assumes "updateMetadata s name mac k now = Inr s1"
  shows "tables s1 = tables s \<and> map m_table_name (metadata s1) = map m_table_name (metadata s)"
  using assms
  by (auto simp: updateMetadata_def Let_def bindE_def split: sum.splits)

lemma cleanup_loop_frame:
  assumes "cleanup_loop cutoff now s tot names = Inr (n, s')"
    and "other \<notin> set names"
  shows "tables s' other = tables s other"
  using assms
proof (induction names arbitrary: s tot)
  case Nil
  then show ?case by simp
next
  case (Cons name names)
  from Cons.prems(1) obtain changes s1 s2 where
    d: "run_delete_older name cutoff s = Inr (changes, s1)"
    and u: "updateMetadata s1 name ''undefined'' None now = Inr s2"
    and l: "cleanup_loop cutoff now s2 (tot + changes) names = Inr (n, s')"
    by (auto split: sum.splits prod.splits)
  from Cons.prems(2) have ne: "other \<noteq> name" and rest: "other \<notin> set names" by auto
  have "tables s' other = tables s2 other" by (rule Cons.IH[OF l rest])
  also have "\<dots> = tables s1 other" using updateMetadata_frame[OF u] by simp
  also have "\<dots> = tables s other" using run_delete_older_frame[OF d] ne by simp
  finally show ?case .
qed

lemma cleanupOldData_keyless:
  assumes "cleanupOldData isoDaysAgo s None olderThanDays now = Inr (n, s')"
  shows "\<exists>cutoff. cleanup_loop cutoff now s 0 (map m_table_name (metadata s)) = Inr (n, s')"
  using assms
  by (auto simp: cleanupOldData_def Let_def split: if_splits)

text \<open>
  Claim C9. Storing an environment record writes no metadata row, and a cleanup without a
  key deletes only from the tables the metadata names. So when the metadata does not name
  \<^verbatim>\<open>ENVIRONMENT_DATA\<close>, a key-less cleanup after an environment write leaves the rows
  of the environment table as they were, whatever the cutoff and their age; the same holds
  for every table the metadata does not name.
\<close>

theorem keyless_cleanup_leaves_environment_table:
  assumes "''ENVIRONMENT_DATA'' \<notin> set (map m_table_name (metadata s))"
    and "storeEnvironmentData s data now = Inr s1"
    and "cleanupOldData isoDaysAgo s1 None olderThanDays now' = Inr (n, s2)"
  shows "metadata s1 = metadata s \<and>
         (\<exists>t. tables s1 ''ENVIRONMENT_DATA'' = Some t \<and> tbl_rows t \<noteq> []) \<and>
         tables s2 ''ENVIRONMENT_DATA'' = tables s1 ''ENVIRONMENT_DATA'' \<and>
         (\<forall>name. name \<notin> set (map m_table_name (metadata s1)) \<longrightarrow>
                 tables s2 name = tables s1 name)"
proof -
  from storeEnvironmentData_Inr[OF assms(2)]
  have m: "metadata s1 = metadata s"
    and t: "\<exists>t. tables s1 ''ENVIRONMENT_DATA'' = Some t \<and> tbl_rows t \<noteq> []"
    by simp_all
  from cleanupOldData_keyless[OF assms(3)] obtain cutoff where
    l: "cleanup_loop cutoff now' s1 0 (map m_table_name (metadata s1)) = Inr (n, s2)"
    by blast
  have f: "\<forall>name. name \<notin> set (map m_table_name (metadata s1)) \<longrightarrow>
                 tables s2 name = tables s1 name"
    using cleanup_loop_frame[OF l] by blast
  from assms(1) m have "''ENVIRONMENT_DATA'' \<notin> set (map m_table_name (metadata s1))"
    by simp
  with f have e: "tables s2 ''ENVIRONMENT_DATA'' = tables s1 ''ENVIRONMENT_DATA''" by blast
  from m t e f show ?thesis by (intro conjI)
qed

lemma Inr_projr_pair: "\<not> isl x \<Longrightarrow> x = Inr (fst (projr x), snd (projr x))"
  by (cases x) auto

theorem keyless_cleanup_witness:
  "''ENVIRONMENT_DATA'' \<notin> set (map m_table_name (metadata one_sensor_store)) \<and>
   \<not> isl (storeEnvironmentData one_sensor_store
            [(''temperature'', JNum 21), (''humidity'', JNum 40)] ''2025-06-01 08:00:00'') \<and>
   \<not> isl (cleanupOldData iso_days_before_8_july_2025 sensor_and_environment_store None (Some 7)
            ''2025-07-08 00:00:00'') \<and>
   fst (projr (cleanupOldData iso_days_before_8_july_2025 sensor_and_environment_store None (Some 7)
            ''2025-07-08 00:00:00'')) = 1 \<and>
   metadata sensor_and_environment_store = metadata one_sensor_store \<and>
   tables (snd (projr (cleanupOldData iso_days_before_8_july_2025 sensor_and_environment_store
                         None (Some 7) ''2025-07-08 00:00:00''))) ''ENVIRONMENT_DATA'' =
     tables sensor_and_environment_store ''ENVIRONMENT_DATA'' \<and>
   map created_at
     (stored_rows (Inr sensor_and_environment_store) ''ENVIRONMENT_DATA'') =
     [''2025-06-01 08:00:00'']"
proof -
  have h1: "''ENVIRONMENT_DATA'' \<notin> set (map m_table_name (metadata one_sensor_store))"
    by code_simp
  have h2: "\<not> isl (storeEnvironmentData one_sensor_store
            [(''temperature'', JNum 21), (''humidity'', JNum 40)] ''2025-06-01 08:00:00'')"
    by code_simp
  have h3: "\<not> isl (cleanupOldData iso_days_before_8_july_2025 sensor_and_environment_store
             None (Some 7) ''2025-07-08 00:00:00'')"
    by code_simp
  have h4: "fst (projr (cleanupOldData iso_days_before_8_july_2025 sensor_and_environment_store
             None (Some 7) ''2025-07-08 00:00:00'')) = 1"
    by code_simp
  have h5: "map created_at
     (stored_rows (Inr sensor_and_environment_store) ''ENVIRONMENT_DATA'') =
     [''2025-06-01 08:00:00'']"
    by code_simp
  have e: "storeEnvironmentData one_sensor_store
            [(''temperature'', JNum 21), (''humidity'', JNum 40)] ''2025-06-01 08:00:00'' =
           Inr sensor_and_environment_store"
    unfolding sensor_and_environment_store_def by (rule Inr_projr[OF h2])
  from keyless_cleanup_leaves_environment_table[OF h1 e Inr_projr_pair[OF h3]] h1 h2 h3 h4 h5
  show ?thesis by simp
qed

subsection \<open>Zero as a missing value\<close>

text \<open>
  Claim C2, evaluated at a failing input. The store holds one row created on 10 June
  2025, the clock reads 8 July 2025 and the retention is the default of 30 days. The row is
  older than the current instant, yet \<^verbatim>\<open>cleanupOldData(mac, 0)\<close> deletes nothing and
  returns 0: \<^verbatim>\<open>olderThanDays || retention_days\<close> reads the 0 as a missing value and
  the cutoff is 30 days back.
\<close>

theorem cleanup_zero_days_uses_retention:
  "retention_days (config one_sensor_store) = 30 \<and>
   map created_at (stored_rows (Inr one_sensor_store) ''AA_BB_CC_DD_EE_FF'') =
     [''2025-06-10 12:00:00''] \<and>
   ''2025-06-10 12:00:00'' < iso_days_before_8_july_2025 0 \<and>
   map_sum id fst (cleanupOldData iso_days_before_8_july_2025 one_sensor_store
                     (Some ''AA:BB:CC:DD:EE:FF'') (Some 0) ''2025-07-08 00:00:00'') = Inr 0 \<and>
   map created_at
     (stored_rows (map_sum id snd (cleanupOldData iso_days_before_8_july_2025 one_sensor_store
                     (Some ''AA:BB:CC:DD:EE:FF'') (Some 0) ''2025-07-08 00:00:00''))
        ''AA_BB_CC_DD_EE_FF'') = [''2025-06-10 12:00:00'']"
  by code_simp

text \<open>
  Claim C3, evaluated at failing inputs. A payload that carries the value 0 for
  \<^verbatim>\<open>rssi\<close>, \<^verbatim>\<open>temperature\<close>, \<^verbatim>\<open>weight\<close>, \<^verbatim>\<open>percentage\<close> or the
  distance is stored with NULL in that column (\<^verbatim>\<open>value || null\<close>); a value that is
  not zero is stored as it is.
\<close>

theorem zero_readings_stored_as_null:
  "map (\<lambda>r. (rssi r, temperature r, weight r))
     (stored_rows (storeSensorData fresh_store ''AA:BB:CC:DD:EE:FF''
                     [(''rssi'', JNum 0), (''temperature'', JNum 0), (''weight'', JNum 0)]
                     ''2025-06-10 12:00:00'') ''AA_BB_CC_DD_EE_FF'') = [(JNull, JNull, JNull)] \<and>
   map battery_percentage
     (stored_rows (storeBatteryData fresh_store ''AA:BB:CC:DD:EE:FF''
                     [(''percentage'', JNum 0)] ''2025-06-10 12:00:00'') ''AA_BB_CC_DD_EE_FF'') =
     [JNull] \<and>
   map distance
     (stored_rows (storeAntData (\<lambda>t. JNaN) fresh_store ''A0:00:00:00:00:01'' ''AA:BB:CC:DD:EE:FF''
                     (JNum 0) ''2025-06-10 12:00:00'') ''AA_BB_CC_DD_EE_FF'') = [JNull] \<and>
   map rssi
     (stored_rows (storeSensorData fresh_store ''AA:BB:CC:DD:EE:FF'' [(''rssi'', JNum (-75))]
                     ''2025-06-10 12:00:00'') ''AA_BB_CC_DD_EE_FF'') = [JNum (-75)]"
  by code_simp

end
